theory Spec2Isabelle
  imports Complex_Main "HOL-Library.Product_Lexorder" "HOL-Library.Multiset" "HOL-Library.Sublist"
begin

section \<open>QOTD backend: the submission evaluation engine of main.py\<close>

text \<open>
  A shallow embedding of \<^verbatim>\<open>src/main.py\<close>: the output comparator, the two evaluators,
  the JSON-backed store with its statistics and leaderboard, and the submit route.

  Conventions of the embedding.
  \<^item> A Python \<^verbatim>\<open>str\<close> is a \<^typ>\<open>string\<close>; a \<^typ>\<open>char\<close> stands for the code point of
    the same number, so the model covers strings over U+0000..U+00FF.
  \<^item> A Python \<^verbatim>\<open>float\<close> (clock readings, elapsed milliseconds) is a \<^typ>\<open>real\<close>:
    rounding is abstracted away. Python's unbounded \<^verbatim>\<open>int\<close> counters are \<^typ>\<open>int\<close>.
  \<^item> The test cases of a \<^verbatim>\<open>Question\<close> are pydantic \<^verbatim>\<open>TestCase\<close> objects: every caller
    passes a validated \<^verbatim>\<open>Question\<close>. A pydantic model has neither \<^verbatim>\<open>__getitem__\<close> nor a
    method \<^verbatim>\<open>get\<close>, so \<^verbatim>\<open>tc["expected_output"]\<close> raises \<^verbatim>\<open>TypeError\<close> and
    \<^verbatim>\<open>tc.get("input")\<close> raises \<^verbatim>\<open>AttributeError\<close>.
  \<^item> The wall clock and the child process are the outside world: both are operations of
    an environment that thread an abstract world state \<open>'w\<close>, so that two readings of the
    clock, or two runs of the same program, may differ.
  \<^item> An exception that leaves a function is a value: \<open>Inl\<close> of a sum type.
\<close>

subsection \<open>Models\<close>

record TestCase =
  tc_input :: "string option"
  tc_expected_output :: string

record Question =
  qn_id :: string
  qn_title :: string
  qn_difficulty :: string
  qn_statement :: string
  qn_sample_input :: "string option"
  qn_sample_output :: "string option"
  qn_test_cases :: "TestCase list"
  qn_hints :: "string list"
  qn_expected_solution :: "string option"

record SubmissionRequest =
  sub_user :: string
  sub_q_id :: string
  sub_language :: "string option"
  sub_answer :: string

record TestResult =
  tr_input :: "string option"
  tr_expected_output :: string
  tr_actual_output :: "string option"
  tr_passed :: bool
  tr_error :: "string option"

record SubmissionResponse =
  correct :: bool
  passed_count :: nat
  total :: nat
  results :: "TestResult list"
  time_ms :: real
  message :: "string option"

record Stats =
  attempts :: int
  successes :: int
  average_time_ms :: real

record LeaderboardEntry =
  lb_user :: string
  lb_q_id :: string
  lb_correct :: bool
  lb_time_ms :: real

text \<open>The per-question dictionary kept under \<^verbatim>\<open>store["stats"][q_id]\<close>.\<close>

record StatsRecord =
  sr_attempts :: int
  sr_successes :: int
  sr_total_time_ms :: real

text \<open>
  The dictionary \<^verbatim>\<open>self.store\<close>: the keys \<^verbatim>\<open>"stats"\<close> and \<^verbatim>\<open>"leaderboard"\<close> may be
  missing (the code reads both through \<^verbatim>\<open>setdefault\<close> or \<^verbatim>\<open>get\<close>).
\<close>

record Store =
  st_stats :: "(string \<rightharpoonup> StatsRecord) option"
  st_leaderboard :: "LeaderboardEntry list option"

text \<open>
  The \<^verbatim>\<open>DataStore\<close> object: the questions by id, the store in memory, and the content
  of the store file as \<^verbatim>\<open>save_store\<close> last wrote it.
\<close>

record DataStore =
  questions :: "string \<rightharpoonup> Question"
  store :: Store
  store_file :: Store

text \<open>
  The Python exceptions that the evaluators raise themselves, with their messages, and
  what leaves a route: an \<^verbatim>\<open>HTTPException\<close>, or any other exception, which nothing
  handles.
\<close>

datatype py_error = TypeError string | AttributeError string

datatype http_error = HTTPException nat string | Unhandled py_error

subsection \<open>The outside world\<close>

text \<open>
  What \<^verbatim>\<open>subprocess.run\<close> inside the \<^verbatim>\<open>try\<close> block can do: complete, with the decoded
  standard output and standard error; raise \<^verbatim>\<open>TimeoutExpired\<close>; or raise any other
  \<^verbatim>\<open>Exception\<close> (also one raised while encoding the input or decoding the output), kept
  with its message \<^verbatim>\<open>str(e)\<close>.
\<close>

datatype run_outcome =
    Completed string string
  | TimeoutExpired
  | Raised string

record 'w env =
  clock :: "'w \<Rightarrow> real \<times> 'w"
  subprocess_run :: "'w \<Rightarrow> string \<Rightarrow> string \<Rightarrow> nat \<Rightarrow> run_outcome \<times> 'w"

subsection \<open>Evaluation helpers\<close>

text \<open>
  \<^verbatim>\<open>str.strip()\<close> without an argument removes the white space of \<^verbatim>\<open>str.isspace\<close> at both
  ends: below U+0100 these are U+0009..U+000D, U+001C..U+001F, U+0020, U+0085 and U+00A0.
\<close>

definition is_space :: "char \<Rightarrow> bool" where
  "is_space c = (of_char c \<in> {9, 10, 11, 12, 13, 28, 29, 30, 31, 32, 133, 160 :: nat})"

definition strip :: "string \<Rightarrow> string" where
  "strip s = rev (dropWhile is_space (rev (dropWhile is_space s)))"

text \<open>\<^verbatim>\<open>actual or ""\<close>: an absent or empty actual output is the empty string.\<close>

definition or_empty :: "string option \<Rightarrow> string" where
  "or_empty actual = (case actual of None \<Rightarrow> [] | Some a \<Rightarrow> (if a = [] then [] else a))"

definition compare_outputs :: "string \<Rightarrow> string option \<Rightarrow> bool" where
  "compare_outputs expected actual = (strip expected = strip (or_empty actual))"

text \<open>\<^verbatim>\<open>str(e)\<close> of an exception.\<close>

definition py_message :: "py_error \<Rightarrow> string" where
  "py_message err = (case err of TypeError m \<Rightarrow> m | AttributeError m \<Rightarrow> m)"

text \<open>
  \<^verbatim>\<open>tc[key]\<close> and \<^verbatim>\<open>tc.get(key)\<close> on a \<^verbatim>\<open>TestCase\<close> object: the class defines neither, so
  both raise, whatever the fields hold.
\<close>

definition not_subscriptable :: py_error where
  "not_subscriptable =
     TypeError (CHR 0x27 # ''TestCase'' @ CHR 0x27 # '' object is not subscriptable'')"

definition no_attribute_get :: py_error where
  "no_attribute_get =
     AttributeError (CHR 0x27 # ''TestCase'' @ CHR 0x27 # '' object has no attribute ''
                     @ CHR 0x27 # ''get'' @ [CHR 0x27])"

definition tc_getitem :: "TestCase \<Rightarrow> string \<Rightarrow> py_error + string" where
  "tc_getitem tc key = Inl not_subscriptable"

definition tc_get :: "TestCase \<Rightarrow> string \<Rightarrow> py_error + string option" where
  "tc_get tc key = Inl no_attribute_get"

definition bind_exc :: "'e + 'a \<Rightarrow> ('a \<Rightarrow> 'e + 'b) \<Rightarrow> 'e + 'b" where
  "bind_exc m f = (case m of Inl err \<Rightarrow> Inl err | Inr a \<Rightarrow> f a)"

text \<open>
  \<^verbatim>\<open>TestResult(input=tc.get("input"), expected_output=tc["expected_output"], actual_output=...,
  passed=..., error=...)\<close>: the arguments are evaluated from left to right.
\<close>

definition make_result ::
  "TestCase \<Rightarrow> string option \<Rightarrow> bool \<Rightarrow> string option \<Rightarrow> py_error + TestResult" where
  "make_result tc actual ok err =
     bind_exc (tc_get tc ''input'') (\<lambda>i.
     bind_exc (tc_getitem tc ''expected_output'') (\<lambda>ex.
       Inr \<lparr>tr_input = i, tr_expected_output = ex, tr_actual_output = actual,
            tr_passed = ok, tr_error = err\<rparr>))"

text \<open>
  The loop of \<^verbatim>\<open>evaluate_output_submission\<close>, with its two accumulators; an exception
  leaves the loop and the function.
\<close>

fun output_loop ::
  "string \<Rightarrow> TestCase list \<Rightarrow> TestResult list \<times> nat \<Rightarrow> py_error + TestResult list \<times> nat" where
  "output_loop answer [] (res, passed) = Inr (res, passed)"
| "output_loop answer (tc # tcs) (res, passed) =
     (case tc_getitem tc ''expected_output'' of
        Inl err \<Rightarrow> Inl err
      | Inr ex \<Rightarrow>
          (let ok = compare_outputs ex (Some answer)
           in case make_result tc (Some answer) ok None of
                Inl err \<Rightarrow> Inl err
              | Inr r \<Rightarrow> output_loop answer tcs (res @ [r], if ok then passed + 1 else passed)))"

definition evaluate_output_submission ::
  "'w env \<Rightarrow> 'w \<Rightarrow> Question \<Rightarrow> string \<Rightarrow> (py_error + SubmissionResponse) \<times> 'w" where
  "evaluate_output_submission e w q answer =
     (let (start, w1) = clock e w
      in case output_loop answer (qn_test_cases q) ([], 0) of
           Inl err \<Rightarrow> (Inl err, w1)
         | Inr (res, passed) \<Rightarrow>
             (let (end, w2) = clock e w1
              in (Inr \<lparr>correct = (passed = length (qn_test_cases q)), passed_count = passed,
                       total = length (qn_test_cases q), results = res,
                       time_ms = (end - start) * 1000, message = None\<rparr>, w2)))"

text \<open>The Python program text \<^verbatim>\<open>wrapper\<close>, and three single quotes.\<close>

definition tq :: string where
  "tq = [CHR 0x27, CHR 0x27, CHR 0x27]"

definition wrapper :: string where
  "wrapper =
     ''import sys\<newline>'' @
     ''def _run():\<newline>'' @
     ''    import sys\<newline>'' @
     ''    data = sys.stdin.read()\<newline>'' @
     ''    try:\<newline>'' @
     ''        # the user code can define solve(input_str) to return answer string\<newline>'' @
     ''        globals_dict = {}\<newline>'' @
     ''        locals_dict = {}\<newline>'' @
     ''        exec(source_code, globals_dict, locals_dict)\<newline>'' @
     ''        if 'solve' in locals_dict:\<newline>'' @
     ''            out = locals_dict['solve'](data.strip())\<newline>'' @
     ''        elif 'solve' in globals_dict:\<newline>'' @
     ''            out = globals_dict['solve'](data.strip())\<newline>'' @
     ''        else:\<newline>'' @
     ''            out = '' @ [CHR 0x27, CHR 0x27] @ ''\<newline>'' @
     ''        print(out, end='' @ [CHR 0x27, CHR 0x27] @ '')\<newline>'' @
     ''    except Exception as e:\<newline>'' @
     ''        print('__ERROR__:' + str(e), end='' @ [CHR 0x27, CHR 0x27] @ '')\<newline>'' @
     ''if __name__ == '__main__':\<newline>'' @
     ''    _run()\<newline>''"

text \<open>\<^verbatim>\<open>full = f"source_code = '''{source}'''\n" + wrapper\<close>\<close>

definition full_program :: "string \<Rightarrow> string" where
  "full_program source = ''source_code = '' @ tq @ source @ tq @ ''\<newline>'' @ wrapper"

text \<open>
  What the \<^verbatim>\<open>try\<close> block of one iteration can raise: \<^verbatim>\<open>subprocess.TimeoutExpired\<close>, or
  another \<^verbatim>\<open>Exception\<close>, kept with its message.
\<close>

datatype try_exc = ExcTimeout | ExcOther string

text \<open>
  The \<^verbatim>\<open>try\<close> block. The arguments of \<^verbatim>\<open>subprocess.run\<close> are evaluated before the call,
  \<^verbatim>\<open>tc.get("input")\<close> among them. The block yields the test result and whether \<^verbatim>\<open>passed\<close>
  is incremented, or the exception raised in it.
\<close>

definition try_block ::
  "'w env \<Rightarrow> string \<Rightarrow> nat \<Rightarrow> TestCase \<Rightarrow> 'w \<Rightarrow> (try_exc + TestResult \<times> bool) \<times> 'w" where
  "try_block e source timeout_sec tc w =
     (let full = full_program source
      in case tc_get tc ''input'' of
           Inl err \<Rightarrow> (Inl (ExcOther (py_message err)), w)
         | Inr inp \<Rightarrow>
             (let (oc, w') = subprocess_run e w full (or_empty inp) timeout_sec
              in case oc of
                   TimeoutExpired \<Rightarrow> (Inl ExcTimeout, w')
                 | Raised msg \<Rightarrow> (Inl (ExcOther msg), w')
                 | Completed out err \<Rightarrow>
                     (if prefix ''__ERROR__:'' out
                      then (case make_result tc None False (Some out) of
                              Inl x \<Rightarrow> (Inl (ExcOther (py_message x)), w')
                            | Inr r \<Rightarrow> (Inr (r, False), w'))
                      else (case tc_getitem tc ''expected_output'' of
                              Inl x \<Rightarrow> (Inl (ExcOther (py_message x)), w')
                            | Inr ex \<Rightarrow>
                                (let ok = compare_outputs ex (Some out)
                                 in case make_result tc (Some out) ok
                                           (if err \<noteq> [] then Some err else None) of
                                      Inl x \<Rightarrow> (Inl (ExcOther (py_message x)), w')
                                    | Inr r \<Rightarrow> (Inr (r, ok), w'))))))"

text \<open>
  The two \<^verbatim>\<open>except\<close> clauses: each builds a failing test result, with the error
  \<^verbatim>\<open>"timeout"\<close> or \<^verbatim>\<open>str(e)\<close>. An exception raised inside a clause leaves the function.
\<close>

definition except_clause :: "TestCase \<Rightarrow> try_exc \<Rightarrow> py_error + TestResult" where
  "except_clause tc exc =
     (case exc of
        ExcTimeout \<Rightarrow> make_result tc None False (Some ''timeout'')
      | ExcOther msg \<Rightarrow> make_result tc None False (Some msg))"

text \<open>The loop of \<^verbatim>\<open>evaluate_python_submission\<close>.\<close>

fun python_loop ::
  "'w env \<Rightarrow> string \<Rightarrow> nat \<Rightarrow> TestCase list \<Rightarrow> TestResult list \<times> nat \<times> 'w
     \<Rightarrow> (py_error + TestResult list \<times> nat) \<times> 'w" where
  "python_loop e source timeout_sec [] (res, passed, w) = (Inr (res, passed), w)"
| "python_loop e source timeout_sec (tc # tcs) (res, passed, w) =
     (case try_block e source timeout_sec tc w of
        (Inr (r, ok), w') \<Rightarrow>
          python_loop e source timeout_sec tcs (res @ [r], if ok then passed + 1 else passed, w')
      | (Inl exc, w') \<Rightarrow>
          (case except_clause tc exc of
             Inl err \<Rightarrow> (Inl err, w')
           | Inr r \<Rightarrow> python_loop e source timeout_sec tcs (res @ [r], passed, w')))"

definition evaluate_python_submission ::
  "'w env \<Rightarrow> 'w \<Rightarrow> Question \<Rightarrow> string \<Rightarrow> nat \<Rightarrow> (py_error + SubmissionResponse) \<times> 'w" where
  "evaluate_python_submission e w q source timeout_sec =
     (let (start, w1) = clock e w
      in case python_loop e source timeout_sec (qn_test_cases q) ([], 0, w1) of
           (Inl err, w2) \<Rightarrow> (Inl err, w2)
         | (Inr (res, passed), w2) \<Rightarrow>
             (let (end, w3) = clock e w2
              in (Inr \<lparr>correct = (passed = length (qn_test_cases q)), passed_count = passed,
                       total = length (qn_test_cases q), results = res,
                       time_ms = (end - start) * 1000, message = None\<rparr>, w3)))"

subsection \<open>The datastore\<close>

definition get_question :: "DataStore \<Rightarrow> string \<Rightarrow> unit + Question" where
  "get_question ds q_id = (case questions ds q_id of None \<Rightarrow> Inl () | Some q \<Rightarrow> Inr q)"

definition zero_record :: StatsRecord where
  "zero_record = \<lparr>sr_attempts = 0, sr_successes = 0, sr_total_time_ms = 0\<rparr>"

definition leaderboard_key :: "LeaderboardEntry \<Rightarrow> bool \<times> real" where
  "leaderboard_key x = (\<not> lb_correct x, lb_time_ms x)"

text \<open>
  \<^verbatim>\<open>sorted\<close> is a stable sort, as \<^const>\<open>sort_key\<close> is; the pairs are compared
  lexicographically, \<^verbatim>\<open>False\<close> before \<^verbatim>\<open>True\<close>. \<^verbatim>\<open>save_store\<close> writes the store to its
  file.
\<close>

definition update_stats :: "DataStore \<Rightarrow> string \<Rightarrow> string \<Rightarrow> bool \<Rightarrow> real \<Rightarrow> DataStore" where
  "update_stats ds q_id user corr t_ms =
     (let stats_map = (case st_stats (store ds) of None \<Rightarrow> Map.empty | Some m \<Rightarrow> m);
          stats = (case stats_map q_id of None \<Rightarrow> zero_record | Some s \<Rightarrow> s);
          stats1 = stats\<lparr>sr_attempts := sr_attempts stats + 1\<rparr>;
          stats2 = (if corr then stats1\<lparr>sr_successes := sr_successes stats1 + 1\<rparr> else stats1);
          stats3 = stats2\<lparr>sr_total_time_ms := sr_total_time_ms stats2 + t_ms\<rparr>;
          lb = (case st_leaderboard (store ds) of None \<Rightarrow> [] | Some l \<Rightarrow> l)
                 @ [\<lparr>lb_user = user, lb_q_id = q_id, lb_correct = corr, lb_time_ms = t_ms\<rparr>];
          lb' = take 100 (sort_key leaderboard_key lb);
          st' = \<lparr>st_stats = Some (stats_map(q_id \<mapsto> stats3)), st_leaderboard = Some lb'\<rparr>
      in ds\<lparr>store := st', store_file := st'\<rparr>)"

text \<open>
  \<^verbatim>\<open>get_stats\<close> reads through \<^verbatim>\<open>setdefault("stats", {})\<close>, which adds the key to the store
  in memory when it is missing; the function returns the statistics and the datastore.
\<close>

definition get_stats :: "DataStore \<Rightarrow> string \<Rightarrow> Stats \<times> DataStore" where
  "get_stats ds q_id =
     (let stats_map = (case st_stats (store ds) of None \<Rightarrow> Map.empty | Some m \<Rightarrow> m);
          ds' = ds\<lparr>store := (store ds)\<lparr>st_stats := Some stats_map\<rparr>\<rparr>;
          s = (case stats_map q_id of None \<Rightarrow> zero_record | Some s \<Rightarrow> s);
          avg = (if sr_attempts s \<noteq> 0 then sr_total_time_ms s / real_of_int (sr_attempts s) else 0)
      in (\<lparr>attempts = sr_attempts s, successes = sr_successes s, average_time_ms = avg\<rparr>, ds'))"

text \<open>A slice \<^verbatim>\<open>xs[:top]\<close> with a negative \<^verbatim>\<open>top\<close> counts from the end.\<close>

definition get_leaderboard :: "DataStore \<Rightarrow> int \<Rightarrow> LeaderboardEntry list" where
  "get_leaderboard ds top_n =
     (let lb = (case st_leaderboard (store ds) of None \<Rightarrow> [] | Some l \<Rightarrow> l)
      in if 0 \<le> top_n then take (nat top_n) lb else take (nat (int (length lb) + top_n)) lb)"

subsection \<open>The submit route\<close>

text \<open>
  An exception of an evaluator is not handled in the route: it leaves it before
  \<^verbatim>\<open>update_stats\<close> is called.
\<close>

definition submit ::
  "'w env \<Rightarrow> DataStore \<Rightarrow> 'w \<Rightarrow> SubmissionRequest
     \<Rightarrow> (http_error + SubmissionResponse) \<times> DataStore \<times> 'w" where
  "submit e ds w sub =
     (case get_question ds (sub_q_id sub) of
        Inl _ \<Rightarrow> (Inl (HTTPException 404 ''Question not found''), ds, w)
      | Inr q \<Rightarrow>
          (if sub_language sub = Some ''output''
           then (case evaluate_output_submission e w q (sub_answer sub) of
                   (Inl err, w') \<Rightarrow> (Inl (Unhandled err), ds, w')
                 | (Inr res, w') \<Rightarrow>
                     (let ds' = update_stats ds (sub_q_id sub) (sub_user sub) (correct res) (time_ms res)
                      in (Inr (res\<lparr>message := Some ''Submission evaluated''\<rparr>), ds', w')))
           else if sub_language sub = Some ''python''
           then (case evaluate_python_submission e w q (sub_answer sub) 2 of
                   (Inl err, w') \<Rightarrow> (Inl (Unhandled err), ds, w')
                 | (Inr res, w') \<Rightarrow>
                     (let ds' = update_stats ds (sub_q_id sub) (sub_user sub) (correct res) (time_ms res)
                      in (Inr (res\<lparr>message := Some ''Submission evaluated''\<rparr>), ds', w')))
           else (Inl (HTTPException 400 ''Unsupported submission language/type''), ds, w)))"

subsection \<open>The sample data of the source\<close>

text \<open>
  The two questions and the empty store that \<^verbatim>\<open>_ensure_files\<close> writes when the data files
  do not exist.
\<close>

definition sample_q1 :: Question where
  "sample_q1 =
     \<lparr>qn_id = ''q1'', qn_title = ''Sum of Two Numbers'', qn_difficulty = ''Easy'',
      qn_statement = ''Given two integers separated by space, output their sum.'',
      qn_sample_input = Some ''2 3'', qn_sample_output = Some ''5'',
      qn_test_cases =
        [\<lparr>tc_input = Some ''2 3'', tc_expected_output = ''5''\<rparr>,
         \<lparr>tc_input = Some ''10 5'', tc_expected_output = ''15''\<rparr>],
      qn_hints = [''Split the input by space and convert to integers'', ''Return a+b''],
      qn_expected_solution =
        Some (''def solve(input_str):\<newline>    a,b=map(int,input_str.split())\<newline>''
              @ ''    return str(a+b)'')\<rparr>"

definition sample_q2 :: Question where
  "sample_q2 =
     \<lparr>qn_id = ''q2'', qn_title = ''Reverse String'', qn_difficulty = ''Easy'',
      qn_statement = ''Given a string, return the string reversed.'',
      qn_sample_input = Some ''hello'', qn_sample_output = Some ''olleh'',
      qn_test_cases =
        [\<lparr>tc_input = Some ''hello'', tc_expected_output = ''olleh''\<rparr>,
         \<lparr>tc_input = Some ''abc'', tc_expected_output = ''cba''\<rparr>],
      qn_hints = [''Use slicing s[::-1]''],
      qn_expected_solution = Some ''def solve(input_str):\<newline>    return input_str[::-1]''\<rparr>"

definition initial_datastore :: DataStore where
  "initial_datastore =
     \<lparr>questions = [''q1'' \<mapsto> sample_q1, ''q2'' \<mapsto> sample_q2],
      store = \<lparr>st_stats = Some Map.empty, st_leaderboard = Some []\<rparr>,
      store_file = \<lparr>st_stats = Some Map.empty, st_leaderboard = Some []\<rparr>\<rparr>"

subsection \<open>Notions used in the statements\<close>

text \<open>A string that neither starts nor ends with white space.\<close>

definition trimmed :: "string \<Rightarrow> bool" where
  "trimmed t = (case t of [] \<Rightarrow> True | c # cs \<Rightarrow> \<not> is_space c \<and> \<not> is_space (last (c # cs)))"

text \<open>
  An environment whose world is the list of the child processes started so far (program,
  standard input, timeout); the outcome of a run and the reading of the clock are
  arbitrary functions of the number of earlier runs.
\<close>

definition logging_env ::
  "(nat \<Rightarrow> real) \<Rightarrow> (nat \<Rightarrow> string \<Rightarrow> string \<Rightarrow> nat \<Rightarrow> run_outcome)
     \<Rightarrow> (string \<times> string \<times> nat) list env" where
  "logging_env clk f =
     \<lparr>clock = (\<lambda>w. (clk (length w), w)),
      subprocess_run = (\<lambda>w p i t. (f (length w) p i t, w @ [(p, i, t)]))\<rparr>"

text \<open>
  An environment that answers the runs with a given list of outcomes, one after the
  other; its world counts the runs.
\<close>

definition scripted_env :: "run_outcome list \<Rightarrow> nat env" where
  "scripted_env ocs =
     \<lparr>clock = (\<lambda>n. (0, n)),
      subprocess_run = (\<lambda>n p i t. (if n < length ocs then ocs ! n else TimeoutExpired, Suc n))\<rparr>"

text \<open>What the store holds for a question id, and its leaderboard, with the defaults of the code.\<close>

definition stats_of :: "DataStore \<Rightarrow> string \<Rightarrow> StatsRecord" where
  "stats_of ds q_id =
     (case (case st_stats (store ds) of None \<Rightarrow> Map.empty | Some m \<Rightarrow> m) q_id of
        None \<Rightarrow> zero_record | Some s \<Rightarrow> s)"

definition leaderboard_of :: "DataStore \<Rightarrow> LeaderboardEntry list" where
  "leaderboard_of ds = (case st_leaderboard (store ds) of None \<Rightarrow> [] | Some l \<Rightarrow> l)"

text \<open>A sequence of calls \<^verbatim>\<open>update_stats(q_id, user, correct, time_ms)\<close>.\<close>

definition record_all :: "DataStore \<Rightarrow> (string \<times> string \<times> bool \<times> real) list \<Rightarrow> DataStore" where
  "record_all ds calls =
     fold (\<lambda>(q_id, user, corr, t_ms) d. update_stats d q_id user corr t_ms) calls ds"

text \<open>Correct entries before incorrect ones, and within each group the faster first.\<close>

definition ranks_before :: "LeaderboardEntry \<Rightarrow> LeaderboardEntry \<Rightarrow> bool" where
  "ranks_before a b =
     ((lb_correct b \<longrightarrow> lb_correct a) \<and>
      (lb_correct a = lb_correct b \<longrightarrow> lb_time_ms a \<le> lb_time_ms b))"

text \<open>
  How the Python lexer reads a literal opened by three single quotes: it ends at the first
  three single quotes in a row, a backslash taking the next character with it.
  \<open>literal_end\<close> returns the text of the literal and the program text behind it.
  \<open>bound_source\<close> is the text that the first line of the assembled program binds to
  \<^verbatim>\<open>source_code\<close> (before the escape sequences in it are replaced), \<open>after_binding\<close> the
  program text that follows the literal.
\<close>

fun literal_end :: "string \<Rightarrow> (string \<times> string) option" where
  "literal_end [] = None"
| "literal_end (c # cs) =
     (if c = CHR 0x5C
      then (case cs of [] \<Rightarrow> None
            | d # ds \<Rightarrow> map_option (\<lambda>(b, r). (c # d # b, r)) (literal_end ds))
      else if prefix tq (c # cs) then Some ([], drop 3 (c # cs))
      else map_option (\<lambda>(b, r). (c # b, r)) (literal_end cs))"

definition bound_source :: "string \<Rightarrow> string option" where
  "bound_source full =
     (if prefix (''source_code = '' @ tq) full
      then map_option fst (literal_end (drop (length (''source_code = '' @ tq)) full))
      else None)"

definition after_binding :: "string \<Rightarrow> string option" where
  "after_binding full =
     (if prefix (''source_code = '' @ tq) full
      then map_option snd (literal_end (drop (length (''source_code = '' @ tq)) full))
      else None)"

section \<open>The output comparator\<close>

lemma dropWhile_all: "list_all P xs \<Longrightarrow> dropWhile P (xs @ ys) = dropWhile P ys"
  by (induction xs) auto

lemma strip_unique:
  assumes "s = l @ t @ r" "list_all is_space l" "list_all is_space r" "trimmed t"
  shows "strip s = t"
proof (cases t)
  case Nil
  have "dropWhile is_space s = []"
    using assms(1,2,3) Nil by (auto simp: dropWhile_eq_Nil_conv list_all_iff)
  then show ?thesis unfolding strip_def Nil by (simp only: dropWhile.simps rev.simps)
next
  case (Cons c cs)
  then have c: "\<not> is_space c" and lst: "\<not> is_space (last t)"
    using assms(4) by (auto simp: trimmed_def)
  have 1: "dropWhile is_space s = t @ r"
    using assms(1,2) c Cons by (simp add: dropWhile_all)
  obtain x xs where xs: "rev t = x # xs" using Cons by (cases "rev t") auto
  have "hd (rev t) = last t" using Cons by (simp add: hd_rev)
  then have "x = last t" using xs by simp
  then have "dropWhile is_space (x # xs) = x # xs" using lst by simp
  then have 3: "dropWhile is_space (rev t) = rev t" using xs by simp
  have "list_all is_space (rev r)" using assms(3) by (simp add: list_all_iff)
  then have "dropWhile is_space (rev r @ rev t) = rev t"
    using 3 by (simp add: dropWhile_all)
  then show ?thesis using 1 by (simp add: strip_def)
qed

lemma strip_decomp:
  "\<exists>l r. s = l @ strip s @ r \<and> list_all is_space l \<and> list_all is_space r"
proof -
  let ?l = "takeWhile is_space s"
  let ?m = "dropWhile is_space s"
  let ?r = "rev (takeWhile is_space (rev ?m))"
  have "rev ?m = takeWhile is_space (rev ?m) @ dropWhile is_space (rev ?m)" by simp
  then have "?m = strip s @ ?r"
    unfolding strip_def by (metis rev_append rev_rev_ident)
  then have "s = ?l @ strip s @ ?r"
    by (metis takeWhile_dropWhile_id)
  moreover have "list_all is_space ?l"
    by (auto simp: list_all_iff dest: set_takeWhileD)
  moreover have "list_all is_space ?r"
    by (auto simp: list_all_iff dest: set_takeWhileD)
  ultimately show ?thesis by blast
qed

lemma strip_trimmed: "trimmed (strip s)"
proof (cases "strip s")
  case Nil
  then show ?thesis by (simp add: trimmed_def)
next
  case (Cons c cs)
  let ?m = "dropWhile is_space s"
  let ?d = "dropWhile is_space (rev ?m)"
  have s: "strip s = rev ?d" by (simp add: strip_def)
  have dne: "?d \<noteq> []" using Cons s by (metis list.distinct(1) rev.simps(1))
  then have "\<not> is_space (hd ?d)" by (rule hd_dropWhile)
  then have l: "\<not> is_space (last (strip s))" using s dne by (simp add: last_rev)
  have mne: "?m \<noteq> []" using dne by (metis dropWhile.simps(1) rev.simps(1))
  have mdec: "?m = strip s @ rev (takeWhile is_space (rev ?m))"
    unfolding strip_def by (metis rev_append rev_rev_ident takeWhile_dropWhile_id)
  have "\<not> is_space (hd ?m)" using mne by (rule hd_dropWhile)
  moreover have "hd ?m = c" using mdec Cons by (metis hd_append2 list.sel(1) list.distinct(1))
  ultimately have "\<not> is_space c" by simp
  then show ?thesis using l Cons by (simp add: trimmed_def)
qed

lemma compare_outputs_same_core:
  "compare_outputs e a =
     (\<exists>l1 r1 l2 r2 core.
        e = l1 @ core @ r1 \<and> or_empty a = l2 @ core @ r2 \<and>
        list_all is_space l1 \<and> list_all is_space r1 \<and>
        list_all is_space l2 \<and> list_all is_space r2 \<and> trimmed core)"
proof
  assume "compare_outputs e a"
  then have eq: "strip e = strip (or_empty a)" by (simp add: compare_outputs_def)
  obtain l1 r1 where 1: "e = l1 @ strip e @ r1" "list_all is_space l1" "list_all is_space r1"
    using strip_decomp by blast
  obtain l2 r2 where 2: "or_empty a = l2 @ strip (or_empty a) @ r2"
      "list_all is_space l2" "list_all is_space r2"
    using strip_decomp by blast
  show "\<exists>l1 r1 l2 r2 core.
        e = l1 @ core @ r1 \<and> or_empty a = l2 @ core @ r2 \<and>
        list_all is_space l1 \<and> list_all is_space r1 \<and>
        list_all is_space l2 \<and> list_all is_space r2 \<and> trimmed core"
    using 1 2 eq strip_trimmed[of e] by metis
next
  assume "\<exists>l1 r1 l2 r2 core.
        e = l1 @ core @ r1 \<and> or_empty a = l2 @ core @ r2 \<and>
        list_all is_space l1 \<and> list_all is_space r1 \<and>
        list_all is_space l2 \<and> list_all is_space r2 \<and> trimmed core"
  then obtain l1 r1 l2 r2 core where h: "e = l1 @ core @ r1" "or_empty a = l2 @ core @ r2"
        "list_all is_space l1" "list_all is_space r1"
        "list_all is_space l2" "list_all is_space r2" "trimmed core" by blast
  have "strip e = core" using h by (intro strip_unique[of e l1 core r1]) auto
  moreover have "strip (or_empty a) = core" using h by (intro strip_unique[of _ l2 core r2]) auto
  ultimately show "compare_outputs e a" by (simp add: compare_outputs_def)
qed

lemmas compare_eval = compare_outputs_def or_empty_def strip_def is_space_def

text \<open>
  Claim C3. \<^verbatim>\<open>_compare_outputs\<close> is true exactly when the expected output and the actual
  output (the empty string when it is absent) are the same string between white space at
  both ends: each is some white space, a common core that neither starts nor ends with
  white space, and some white space. Nothing else is normalised: the case of letters, the
  white space inside and the line endings inside are significant. In particular
  \<^verbatim>\<open>compare("5", "5\n")\<close> and \<^verbatim>\<open>compare("5", " 5 ")\<close> are true and \<^verbatim>\<open>compare("5", "05")\<close> is
  false.
\<close>

theorem compare_outputs_trim_only:
  "compare_outputs e a =
     (\<exists>l1 r1 l2 r2 core.
        e = l1 @ core @ r1 \<and> or_empty a = l2 @ core @ r2 \<and>
        list_all is_space l1 \<and> list_all is_space r1 \<and>
        list_all is_space l2 \<and> list_all is_space r2 \<and> trimmed core) \<and>
   compare_outputs e a = (strip e = strip (or_empty a)) \<and>
   or_empty None = [] \<and>
   compare_outputs e None = compare_outputs e (Some []) \<and>
   compare_outputs ''5'' (Some ''5\<newline>'') \<and>
   compare_outputs ''5'' (Some '' 5 '') \<and>
   \<not> compare_outputs ''5'' (Some ''05'') \<and>
   \<not> compare_outputs ''a'' (Some ''A'') \<and>
   \<not> compare_outputs ''a b'' (Some ''a  b'') \<and>
   \<not> compare_outputs (''a'' @ [CHR 0x0D, CHR 0x0A] @ ''b'') (Some ''a\<newline>b'')"
proof -
  have "compare_outputs e None = compare_outputs e (Some [])"
    by (simp add: compare_outputs_def or_empty_def)
  moreover have "compare_outputs ''5'' (Some ''5\<newline>'')" by (simp add: compare_eval)
  moreover have "compare_outputs ''5'' (Some '' 5 '')" by (simp add: compare_eval)
  moreover have "\<not> compare_outputs ''5'' (Some ''05'')" by (simp add: compare_eval)
  moreover have "\<not> compare_outputs ''a'' (Some ''A'')" by (simp add: compare_eval)
  moreover have "\<not> compare_outputs ''a b'' (Some ''a  b'')" by (simp add: compare_eval)
  moreover have "\<not> compare_outputs (''a'' @ [CHR 0x0D, CHR 0x0A] @ ''b'') (Some ''a\<newline>b'')"
    by (simp add: compare_eval)
  moreover have "or_empty None = []" by (simp add: or_empty_def)
  moreover have "compare_outputs e a = (strip e = strip (or_empty a))"
    by (simp add: compare_outputs_def)
  ultimately show ?thesis using compare_outputs_same_core[of e a] by simp
qed

section \<open>The two evaluators\<close>

lemma make_result_raises: "make_result tc actual ok err = Inl no_attribute_get"
  by (simp add: make_result_def bind_exc_def tc_get_def)

lemma output_loop_raises: "output_loop answer (tc # tcs) (res, passed) = Inl not_subscriptable"
  by (simp add: tc_getitem_def)

lemma try_block_raises:
  "try_block e source timeout_sec tc w = (Inl (ExcOther (py_message no_attribute_get)), w)"
  by (simp add: try_block_def tc_get_def)

lemma except_clause_raises: "except_clause tc exc = Inl no_attribute_get"
  by (simp add: except_clause_def make_result_raises split: try_exc.splits)

lemma python_loop_raises:
  "python_loop e source timeout_sec (tc # tcs) (res, passed, w) = (Inl no_attribute_get, w)"
  by (simp add: try_block_raises except_clause_raises)

lemma evaluate_output_raises:
  "qn_test_cases q = tc # tcs \<Longrightarrow>
     evaluate_output_submission e w q answer = (Inl not_subscriptable, snd (clock e w))"
  by (simp add: evaluate_output_submission_def output_loop_raises del: output_loop.simps
      split: prod.splits)

lemma evaluate_python_raises:
  "qn_test_cases q = tc # tcs \<Longrightarrow>
     evaluate_python_submission e w q source timeout_sec = (Inl no_attribute_get, snd (clock e w))"
  by (simp add: evaluate_python_submission_def python_loop_raises del: python_loop.simps
      split: prod.splits)

lemma sample_q1_test_cases:
  "qn_test_cases sample_q1 =
     \<lparr>tc_input = Some ''2 3'', tc_expected_output = ''5''\<rparr>
       # [\<lparr>tc_input = Some ''10 5'', tc_expected_output = ''15''\<rparr>]"
  by (simp add: sample_q1_def)

text \<open>
  Claim C1 says that both evaluators return a verdict with one test result for each test
  case. The code does so only for a question without test cases: for every question with
  at least one test case \<^verbatim>\<open>evaluate_output_submission\<close> raises \<^verbatim>\<open>TypeError\<close> and
  \<^verbatim>\<open>evaluate_python_submission\<close> raises \<^verbatim>\<open>AttributeError\<close>, after the first reading of the
  clock, and no verdict is returned.
\<close>

theorem evaluate_raises_for_test_cases:
  "evaluate_output_submission e w (q\<lparr>qn_test_cases := tc # tcs\<rparr>) answer =
     (Inl not_subscriptable, snd (clock e w)) \<and>
   evaluate_python_submission e w (q\<lparr>qn_test_cases := tc # tcs\<rparr>) source timeout_sec =
     (Inl no_attribute_get, snd (clock e w)) \<and>
   (\<exists>r. fst (evaluate_output_submission e w (q\<lparr>qn_test_cases := []\<rparr>) answer) = Inr r \<and>
        results r = [] \<and> total r = 0) \<and>
   (\<exists>r. fst (evaluate_python_submission e w (q\<lparr>qn_test_cases := []\<rparr>) source timeout_sec) = Inr r \<and>
        results r = [] \<and> total r = 0)"
proof -
  have a: "evaluate_output_submission e w (q\<lparr>qn_test_cases := tc # tcs\<rparr>) answer =
     (Inl not_subscriptable, snd (clock e w))"
    by (rule evaluate_output_raises) simp
  have b: "evaluate_python_submission e w (q\<lparr>qn_test_cases := tc # tcs\<rparr>) source timeout_sec =
     (Inl no_attribute_get, snd (clock e w))"
    by (rule evaluate_python_raises) simp
  have c: "\<exists>r. fst (evaluate_output_submission e w (q\<lparr>qn_test_cases := []\<rparr>) answer) = Inr r \<and>
        results r = [] \<and> total r = 0"
    by (simp add: evaluate_output_submission_def split: prod.splits)
  have d: "\<exists>r. fst (evaluate_python_submission e w (q\<lparr>qn_test_cases := []\<rparr>) source timeout_sec) = Inr r \<and>
        results r = [] \<and> total r = 0"
    by (simp add: evaluate_python_submission_def split: prod.splits)
  show ?thesis using a b c d by blast
qed

text \<open>
  Claim C4 says that the first sample question (expected outputs "5" and "15") with the
  answer "5" in output mode gives \<^verbatim>\<open>passed_count = 1\<close> and \<^verbatim>\<open>correct = False\<close>. In the code
  that submission raises \<^verbatim>\<open>TypeError\<close> at the first comparison: the route returns no
  response, and the datastore is not updated.
\<close>

theorem submit_output_sample_raises:
  "map tc_expected_output (qn_test_cases sample_q1) = [''5'', ''15''] \<and>
   fst (evaluate_output_submission e w sample_q1 ''5'') = Inl not_subscriptable \<and>
   submit e initial_datastore w
     \<lparr>sub_user = user, sub_q_id = ''q1'', sub_language = Some ''output'', sub_answer = ''5''\<rparr> =
     (Inl (Unhandled not_subscriptable), initial_datastore, snd (clock e w))"
proof -
  have a: "evaluate_output_submission e w sample_q1 ''5'' = (Inl not_subscriptable, snd (clock e w))"
    by (rule evaluate_output_raises) (rule sample_q1_test_cases)
  have b: "get_question initial_datastore ''q1'' = Inr sample_q1"
    by (simp add: get_question_def initial_datastore_def)
  have c: "map tc_expected_output (qn_test_cases sample_q1) = [''5'', ''15'']"
    by (simp add: sample_q1_def)
  show ?thesis using c by (simp add: submit_def a b)
qed

text \<open>
  Claim C10 says that in output mode there is, for every test case, a test result without
  error whose actual output is the answer. In the code an iteration of the loop raises
  \<^verbatim>\<open>TypeError\<close> before it appends anything, and the construction of the test result
  itself raises \<^verbatim>\<open>AttributeError\<close>: the loop returns results only for no test cases, and
  then the ones it started with.
\<close>

theorem output_loop_emits_nothing:
  "output_loop answer (tc # tcs) (res, passed) = Inl not_subscriptable \<and>
   make_result tc (Some answer) ok None = Inl no_attribute_get \<and>
   output_loop answer [] (res, passed) = Inr (res, passed)"
  by (simp add: output_loop_raises make_result_raises del: output_loop.simps(2))

text \<open>
  Claim C5 says how python mode reads the output of a child process: the sentinel
  \<^verbatim>\<open>__ERROR__:\<close> gives a failing result with the output as its error, any other output is
  compared. In the code the \<^verbatim>\<open>try\<close> block raises \<^verbatim>\<open>AttributeError\<close> while the arguments
  of \<^verbatim>\<open>subprocess.run\<close> are evaluated, in the same world, so no output is captured; the
  \<^verbatim>\<open>except\<close> clause raises again. With an environment whose first child process would
  print the sentinel and whose world counts the runs, the evaluation of the first sample
  question raises with no run counted.
\<close>

theorem evaluate_python_sentinel_unreached:
  "try_block e source timeout_sec tc w = (Inl (ExcOther (py_message no_attribute_get)), w) \<and>
   except_clause tc (ExcOther (py_message no_attribute_get)) = Inl no_attribute_get \<and>
   evaluate_python_submission
     (scripted_env [Completed ''__ERROR__:division by zero'' [], Completed ''15\<newline>'' ''warning''])
     0 sample_q1 source timeout_sec = (Inl no_attribute_get, 0)"
proof -
  let ?e = "scripted_env [Completed ''__ERROR__:division by zero'' [], Completed ''15\<newline>'' ''warning'']"
  have "evaluate_python_submission ?e 0 sample_q1 source timeout_sec =
          (Inl no_attribute_get, snd (clock ?e 0))"
    by (rule evaluate_python_raises) (rule sample_q1_test_cases)
  moreover have "snd (clock ?e 0) = 0" by (simp add: scripted_env_def)
  ultimately show ?thesis by (simp add: try_block_raises except_clause_raises)
qed

text \<open>
  Claim C6 says that a child process that times out gives the one result with the error
  "timeout" and that the remaining test cases are still run. In the code no child process
  is started at all: for every question with a test case, and an environment that logs
  the processes started, whatever they would do (time out, for instance), the evaluation
  raises \<^verbatim>\<open>AttributeError\<close> with an empty log; the clause for \<^verbatim>\<open>TimeoutExpired\<close> would
  raise as well.
\<close>

theorem evaluate_python_starts_no_process:
  "evaluate_python_submission (logging_env clk f) [] (q\<lparr>qn_test_cases := tc # tcs\<rparr>)
     source timeout_sec = (Inl no_attribute_get, []) \<and>
   python_loop e source timeout_sec (tc # tcs) (res, passed, w) = (Inl no_attribute_get, w) \<and>
   except_clause tc ExcTimeout = Inl no_attribute_get"
proof -
  have "evaluate_python_submission (logging_env clk f) [] (q\<lparr>qn_test_cases := tc # tcs\<rparr>)
     source timeout_sec = (Inl no_attribute_get, snd (clock (logging_env clk f) []))"
    by (rule evaluate_python_raises) simp
  moreover have "snd (clock (logging_env clk f) []) = []" by (simp add: logging_env_def)
  ultimately show ?thesis
    by (simp add: python_loop_raises except_clause_raises del: python_loop.simps)
qed

section \<open>Statistics and leaderboard\<close>

lemma StatsRecord_updates:
  "(s::StatsRecord)\<lparr>sr_attempts := a, sr_successes := b, sr_total_time_ms := c\<rparr> =
     \<lparr>sr_attempts = a, sr_successes = b, sr_total_time_ms = c\<rparr>"
  "(s::StatsRecord)\<lparr>sr_attempts := a, sr_total_time_ms := c\<rparr> =
     \<lparr>sr_attempts = a, sr_successes = sr_successes s, sr_total_time_ms = c\<rparr>"
  by (cases s, simp)+

lemma update_stats_stats:
  "st_stats (store (update_stats ds q_id user corr t_ms)) =
     Some ((case st_stats (store ds) of None \<Rightarrow> Map.empty | Some m \<Rightarrow> m)
       (q_id \<mapsto> \<lparr>sr_attempts = sr_attempts (stats_of ds q_id) + 1,
                  sr_successes = sr_successes (stats_of ds q_id) + (if corr then 1 else 0),
                  sr_total_time_ms = sr_total_time_ms (stats_of ds q_id) + t_ms\<rparr>))"
  by (simp add: update_stats_def stats_of_def Let_def StatsRecord_updates)

lemma stats_of_update:
  "stats_of (update_stats ds q_id user corr t_ms) q' =
     (if q' = q_id
      then \<lparr>sr_attempts = sr_attempts (stats_of ds q_id) + 1,
            sr_successes = sr_successes (stats_of ds q_id) + (if corr then 1 else 0),
            sr_total_time_ms = sr_total_time_ms (stats_of ds q_id) + t_ms\<rparr>
      else stats_of ds q')"
  unfolding stats_of_def[of "update_stats ds q_id user corr t_ms"] update_stats_stats
  by (simp add: stats_of_def)

lemma record_all_snoc:
  "record_all ds (calls @ [(q_id, user, corr, t_ms)]) =
     update_stats (record_all ds calls) q_id user corr t_ms"
  by (simp add: record_all_def)

lemma stats_of_record_all:
  "sr_attempts (stats_of (record_all ds calls) q) =
       sr_attempts (stats_of ds q) + int (length (filter (\<lambda>(q', u, c, t). q' = q) calls)) \<and>
     sr_successes (stats_of (record_all ds calls) q) =
       sr_successes (stats_of ds q) + int (length (filter (\<lambda>(q', u, c, t). q' = q \<and> c) calls)) \<and>
     sr_total_time_ms (stats_of (record_all ds calls) q) =
       sr_total_time_ms (stats_of ds q)
         + sum_list (map (\<lambda>(q', u, c, t). t) (filter (\<lambda>(q', u, c, t). q' = q) calls))"
proof (induction calls rule: rev_induct)
  case Nil
  show ?case by (simp add: record_all_def)
next
  case (snoc x xs)
  obtain q' u c t where x: "x = (q', u, c, t)" by (cases x) auto
  show ?case
    using snoc.IH by (auto simp add: x record_all_snoc stats_of_update)
qed

lemma get_stats_value:
  "fst (get_stats ds q) =
     \<lparr>attempts = sr_attempts (stats_of ds q), successes = sr_successes (stats_of ds q),
      average_time_ms =
        (if sr_attempts (stats_of ds q) = 0 then 0
         else sr_total_time_ms (stats_of ds q) / real_of_int (sr_attempts (stats_of ds q)))\<rparr>"
  by (simp add: get_stats_def stats_of_def Let_def)

lemma get_stats_keeps:
  "stats_of (snd (get_stats ds q)) q' = stats_of ds q'"
  by (simp add: get_stats_def stats_of_def Let_def split: option.splits)

text \<open>
  Claim C7. A call of \<^verbatim>\<open>update_stats\<close> stores for its question id the record read
  before the call (all zero when the store has none) with \<^verbatim>\<open>attempts\<close> one higher,
  \<^verbatim>\<open>successes\<close> one higher exactly when the submission was correct, and the elapsed time
  added to \<^verbatim>\<open>total_time_ms\<close>; the records of the other ids stay. After any sequence of
  calls the three fields of a question id have grown by the number of its calls, of its
  correct calls, and by the sum of its elapsed times. \<^verbatim>\<open>get_stats\<close> returns the two
  counters and the average \<^verbatim>\<open>total_time_ms / attempts\<close>, which is 0 when \<^verbatim>\<open>attempts\<close> is 0,
  and leaves the statistics as they are.
\<close>

theorem update_stats_counters:
  "st_stats (store (update_stats ds q_id user corr t_ms)) =
     Some ((case st_stats (store ds) of None \<Rightarrow> Map.empty | Some m \<Rightarrow> m)
       (q_id \<mapsto> \<lparr>sr_attempts = sr_attempts (stats_of ds q_id) + 1,
                  sr_successes = sr_successes (stats_of ds q_id) + (if corr then 1 else 0),
                  sr_total_time_ms = sr_total_time_ms (stats_of ds q_id) + t_ms\<rparr>)) \<and>
   stats_of initial_datastore q = \<lparr>sr_attempts = 0, sr_successes = 0, sr_total_time_ms = 0\<rparr> \<and>
   sr_attempts (stats_of (record_all ds calls) q) =
     sr_attempts (stats_of ds q) + int (length (filter (\<lambda>(q', u, c, t). q' = q) calls)) \<and>
   sr_successes (stats_of (record_all ds calls) q) =
     sr_successes (stats_of ds q) + int (length (filter (\<lambda>(q', u, c, t). q' = q \<and> c) calls)) \<and>
   sr_total_time_ms (stats_of (record_all ds calls) q) =
     sr_total_time_ms (stats_of ds q)
       + sum_list (map (\<lambda>(q', u, c, t). t) (filter (\<lambda>(q', u, c, t). q' = q) calls)) \<and>
   fst (get_stats ds q) =
     \<lparr>attempts = sr_attempts (stats_of ds q), successes = sr_successes (stats_of ds q),
      average_time_ms =
        (if sr_attempts (stats_of ds q) = 0 then 0
         else sr_total_time_ms (stats_of ds q) / real_of_int (sr_attempts (stats_of ds q)))\<rparr> \<and>
   stats_of (snd (get_stats ds q)) q' = stats_of ds q'"
proof -
  have "stats_of initial_datastore q = \<lparr>sr_attempts = 0, sr_successes = 0, sr_total_time_ms = 0\<rparr>"
    by (simp add: stats_of_def initial_datastore_def zero_record_def)
  then show ?thesis
    using update_stats_stats stats_of_record_all get_stats_value get_stats_keeps by blast
qed

lemma leaderboard_of_update:
  "leaderboard_of (update_stats ds q_id user corr t_ms) =
     take 100 (sort_key leaderboard_key
       (leaderboard_of ds @ [\<lparr>lb_user = user, lb_q_id = q_id, lb_correct = corr, lb_time_ms = t_ms\<rparr>]))"
  by (simp add: update_stats_def leaderboard_of_def Let_def)

lemma key_le_ranks: "leaderboard_key a \<le> leaderboard_key b \<Longrightarrow> ranks_before a b"
  by (auto simp: leaderboard_key_def ranks_before_def less_eq_prod_def)

lemma ranked_take_sort: "sorted_wrt ranks_before (take n (sort_key leaderboard_key xs))"
proof -
  have "sorted (map leaderboard_key (sort_key leaderboard_key xs))" by simp
  then have "sorted_wrt (\<lambda>a b. leaderboard_key a \<le> leaderboard_key b) (sort_key leaderboard_key xs)"
    by (simp add: sorted_map)
  then have "sorted_wrt ranks_before (sort_key leaderboard_key xs)"
    by (rule sorted_wrt_mono_rel[rotated]) (simp add: key_le_ranks)
  then show ?thesis by (rule sorted_wrt_take)
qed

lemma mset_take_sub: "mset (take n xs) \<subseteq># mset xs"
  by (metis append_take_drop_id mset_append mset_subset_eq_add_left)

text \<open>
  Claim C8. After a call of \<^verbatim>\<open>update_stats\<close> the leaderboard is the first 100 entries of
  the old leaderboard with the new entry appended, sorted (stably) by the key
  \<^verbatim>\<open>(not correct, time_ms)\<close>: it has at most 100 entries, every correct entry stands before
  every incorrect one, and entries of the same correctness stand in ascending time. So the
  bound and the order hold after every non-empty sequence of calls, from any store.
\<close>

theorem update_stats_leaderboard:
  "leaderboard_of (update_stats ds q_id user corr t_ms) =
     take 100 (sort_key leaderboard_key
       (leaderboard_of ds @ [\<lparr>lb_user = user, lb_q_id = q_id, lb_correct = corr, lb_time_ms = t_ms\<rparr>])) \<and>
   length (leaderboard_of (update_stats ds q_id user corr t_ms)) \<le> 100 \<and>
   sorted (map leaderboard_key (leaderboard_of (update_stats ds q_id user corr t_ms))) \<and>
   sorted_wrt ranks_before (leaderboard_of (update_stats ds q_id user corr t_ms)) \<and>
   mset (leaderboard_of (update_stats ds q_id user corr t_ms)) \<subseteq>#
     mset (leaderboard_of ds) + {#\<lparr>lb_user = user, lb_q_id = q_id, lb_correct = corr, lb_time_ms = t_ms\<rparr>#} \<and>
   (calls \<noteq> [] \<longrightarrow>
      length (leaderboard_of (record_all ds calls)) \<le> 100 \<and>
      sorted_wrt ranks_before (leaderboard_of (record_all ds calls)))"
proof -
  let ?new = "\<lparr>lb_user = user, lb_q_id = q_id, lb_correct = corr, lb_time_ms = t_ms\<rparr>"
  let ?lb = "leaderboard_of (update_stats ds q_id user corr t_ms)"
  have a: "?lb = take 100 (sort_key leaderboard_key (leaderboard_of ds @ [?new]))"
    by (rule leaderboard_of_update)
  have b: "length ?lb \<le> 100" unfolding a by simp
  have "sorted (map leaderboard_key (sort_key leaderboard_key (leaderboard_of ds @ [?new])))" by simp
  then have c: "sorted (map leaderboard_key ?lb)"
    unfolding a take_map[symmetric] by (rule sorted_wrt_take)
  have d: "sorted_wrt ranks_before ?lb" unfolding a by (rule ranked_take_sort)
  have "mset ?lb \<subseteq># mset (sort_key leaderboard_key (leaderboard_of ds @ [?new]))"
    unfolding a by (rule mset_take_sub)
  then have m: "mset ?lb \<subseteq># mset (leaderboard_of ds) + {#?new#}" by simp
  have s: "calls \<noteq> [] \<longrightarrow>
      length (leaderboard_of (record_all ds calls)) \<le> 100 \<and>
      sorted_wrt ranks_before (leaderboard_of (record_all ds calls))"
  proof
    assume "calls \<noteq> []"
    then obtain cs x where "calls = cs @ [x]" by (metis rev_exhaust)
    moreover obtain q' u' c' t' where "x = (q', u', c', t')" by (cases x) auto
    ultimately have "record_all ds calls = update_stats (record_all ds cs) q' u' c' t'"
      by (simp add: record_all_snoc)
    then show "length (leaderboard_of (record_all ds calls)) \<le> 100 \<and>
      sorted_wrt ranks_before (leaderboard_of (record_all ds calls))"
      by (simp add: leaderboard_of_update ranked_take_sort)
  qed
  show ?thesis using a b c d m s by blast
qed

theorem update_stats_leaderboard_witness:
  "[(''q1'', ''alice'', False, 3), (''q1'', ''bob'', True, 5 :: real)] \<noteq> [] \<and>
   length (leaderboard_of (record_all initial_datastore
     [(''q1'', ''alice'', False, 3), (''q1'', ''bob'', True, 5)])) \<le> 100 \<and>
   sorted_wrt ranks_before (leaderboard_of (record_all initial_datastore
     [(''q1'', ''alice'', False, 3), (''q1'', ''bob'', True, 5)])) \<and>
   leaderboard_of (record_all initial_datastore
     [(''q1'', ''alice'', False, 3), (''q1'', ''bob'', True, 5)]) =
     [\<lparr>lb_user = ''bob'', lb_q_id = ''q1'', lb_correct = True, lb_time_ms = 5\<rparr>,
      \<lparr>lb_user = ''alice'', lb_q_id = ''q1'', lb_correct = False, lb_time_ms = 3\<rparr>]"
proof -
  let ?calls = "[(''q1'', ''alice'', False, 3), (''q1'', ''bob'', True, 5 :: real)]"
  have ne: "?calls \<noteq> []" by simp
  have r: "record_all initial_datastore ?calls =
     update_stats (update_stats initial_datastore ''q1'' ''alice'' False 3) ''q1'' ''bob'' True 5"
    by (simp add: record_all_def)
  have i: "leaderboard_of initial_datastore = []"
    by (simp add: leaderboard_of_def initial_datastore_def)
  have v: "leaderboard_of (record_all initial_datastore ?calls) =
     [\<lparr>lb_user = ''bob'', lb_q_id = ''q1'', lb_correct = True, lb_time_ms = 5\<rparr>,
      \<lparr>lb_user = ''alice'', lb_q_id = ''q1'', lb_correct = False, lb_time_ms = 3\<rparr>]"
    unfolding r leaderboard_of_update i
    by (simp add: leaderboard_key_def less_eq_prod_def)
  show ?thesis
    using ne v update_stats_leaderboard [where ds = initial_datastore and calls = ?calls]
    by simp
qed

section \<open>The submit route\<close>

text \<open>
  Claim C9. For a question id that exists and a \<^verbatim>\<open>language\<close> that is neither "output" nor
  "python" (also an absent one), \<^verbatim>\<open>submit\<close> raises the HTTP error 400; the datastore
  (statistics, leaderboard and store file) is the one before the call, and so is the
  world: the clock was not read and no child process was run.
\<close>

theorem submit_unsupported_language:
  assumes "questions ds (sub_q_id sub) = Some q"
    and "sub_language sub \<noteq> Some ''output''" and "sub_language sub \<noteq> Some ''python''"
  shows "submit e ds w sub = (Inl (HTTPException 400 ''Unsupported submission language/type''), ds, w)"
  using assms by (simp add: submit_def get_question_def)

theorem submit_unsupported_language_witness:
  "questions initial_datastore
     (sub_q_id \<lparr>sub_user = ''alice'', sub_q_id = ''q1'', sub_language = Some ''java'', sub_answer = ''5''\<rparr>)
     = Some sample_q1 \<and>
   sub_language \<lparr>sub_user = ''alice'', sub_q_id = ''q1'', sub_language = Some ''java'', sub_answer = ''5''\<rparr>
     \<noteq> Some ''output'' \<and>
   sub_language \<lparr>sub_user = ''alice'', sub_q_id = ''q1'', sub_language = Some ''java'', sub_answer = ''5''\<rparr>
     \<noteq> Some ''python'' \<and>
   submit (logging_env (\<lambda>n. 0) (\<lambda>n p i t. TimeoutExpired)) initial_datastore []
     \<lparr>sub_user = ''alice'', sub_q_id = ''q1'', sub_language = Some ''java'', sub_answer = ''5''\<rparr> =
     (Inl (HTTPException 400 ''Unsupported submission language/type''), initial_datastore, [])"
proof -
  let ?sub = "\<lparr>sub_user = ''alice'', sub_q_id = ''q1'', sub_language = Some ''java'', sub_answer = ''5''\<rparr>"
  have h1: "questions initial_datastore (sub_q_id ?sub) = Some sample_q1"
    by (simp add: initial_datastore_def)
  have h2: "sub_language ?sub \<noteq> Some ''output''" and h3: "sub_language ?sub \<noteq> Some ''python''"
    by simp_all
  show ?thesis
    using h1 h2 h3 submit_unsupported_language [OF h1 h2 h3] by simp
qed

section \<open>Assembling the program of the child process\<close>

text \<open>
  Claim C2 asks that the assembled program binds \<^verbatim>\<open>source_code\<close> to the submitted source,
  whatever the source contains. The code puts the source between two rows of three single
  quotes. For the source that is three quotes, a line \<^verbatim>\<open>import os\<close>, and \<^verbatim>\<open>x = \<close> with three
  quotes, the literal ends at once: \<^verbatim>\<open>source_code\<close> is bound to the empty string, not to
  the source, and the line \<^verbatim>\<open>import os\<close> is a statement of the wrapper program. A source
  without quotes and backslashes is bound as it is.
\<close>

theorem full_program_breaks_out:
  "bound_source (full_program (tq @ ''\<newline>import os\<newline>x = '' @ tq)) = Some [] \<and>
   bound_source (full_program (tq @ ''\<newline>import os\<newline>x = '' @ tq))
     \<noteq> Some (tq @ ''\<newline>import os\<newline>x = '' @ tq) \<and>
   after_binding (full_program (tq @ ''\<newline>import os\<newline>x = '' @ tq)) =
     Some (''\<newline>import os\<newline>x = '' @ tq @ tq @ ''\<newline>'' @ wrapper) \<and>
   bound_source (full_program ''def solve(s):\<newline>    return s'') =
     Some ''def solve(s):\<newline>    return s''"
  by (simp add: bound_source_def after_binding_def full_program_def tq_def)

end

